theory Spec2Isabelle
  imports Complex_Main "HOL-Library.Sublist"
begin

section \<open>Python strings\<close>

text \<open>
  A Python \<open>str\<close> is modelled as a \<^typ>\<open>string\<close>: a list of characters, each standing for
  the code point of the same number (0 to 255). The status page of mod_status and the
  URLs of the configuration are ASCII.
\<close>

abbreviation NL :: char where
  "NL \<equiv> CHR 0x0A"

definition py_isspace :: "char \<Rightarrow> bool" where
  \<comment> \<open>\<open>str.isspace\<close> on one code point below 256: TAB, LF, VT, FF, CR, the separators
      FS, GS, RS, US, the space, NEL and the no-break space.\<close>
  "py_isspace c = ((of_char c :: nat) \<in> {9, 10, 11, 12, 13, 28, 29, 30, 31, 32, 133, 160})"

definition strip :: "string \<Rightarrow> string" where
  \<comment> \<open>\<open>str.strip()\<close>: whitespace removed at both ends.\<close>
  "strip s = rev (dropWhile py_isspace (rev (dropWhile py_isspace s)))"

function split_from :: "string \<Rightarrow> string \<Rightarrow> string \<Rightarrow> string list" where
  \<comment> \<open>The scan of \<open>str.split(sep)\<close> for a non-empty \<open>sep\<close>: \<open>cur\<close> holds, reversed, the
      characters read since the last separator.\<close>
  "split_from sep cur [] = [rev cur]"
| "split_from sep cur (c # cs) =
     (if sep \<noteq> [] \<and> prefix sep (c # cs)
      then rev cur # split_from sep [] (drop (length sep) (c # cs))
      else split_from sep (c # cur) cs)"
  by pat_completeness auto
termination
  by (relation "measure (\<lambda>(sep, cur, s). length s)") auto

definition split :: "string \<Rightarrow> string \<Rightarrow> string list" where
  \<comment> \<open>\<open>s.split(sep)\<close>, every occurrence of \<open>sep\<close> cut out, left to right.\<close>
  "split sep s = split_from sep [] s"

section \<open>The status parser\<close>

type_synonym status = "string \<rightharpoonup> string"

text \<open>
  The loop of \<open>fetch_apache_status\<close> over \<open>data.split('\n')\<close>: a line is kept when
  \<open>item.split(': ')\<close> has exactly two elements, and then
  \<open>server_status[key.strip()] = val.strip()\<close>.
\<close>

fun parse_items :: "string list \<Rightarrow> status \<Rightarrow> status" where
  "parse_items [] server_status = server_status"
| "parse_items (item # items) server_status =
     (case split '': '' item of
        [key, val] \<Rightarrow> parse_items items (server_status(strip key \<mapsto> strip val))
      | _ \<Rightarrow> parse_items items server_status)"

definition parse_status :: "string \<Rightarrow> status" where
  "parse_status data = parse_items (split [NL] data) Map.empty"

section \<open>Exceptions\<close>

datatype exn =
    ValueError
  | KeyError
  | OverflowError
  | ZeroDivisionError
  | ClientError string  \<comment> \<open>whatever the HTTP client raises: connection, timeout, status, decoding\<close>

section \<open>URL handling (urllib.parse)\<close>

text \<open>
  The library functions that \<open>ensure_auto_parameter\<close> calls, after \<open>urllib.parse\<close> of
  CPython 3.10 (the interpreter the script names): \<open>urlsplit\<close>, \<open>urlparse\<close>,
  \<open>parse_qsl\<close>, \<open>parse_qs\<close>, \<open>unquote\<close>, \<open>urlunsplit\<close> and \<open>urlunparse\<close>, with their
  default arguments.
\<close>

definition scheme_chars :: string where
  "scheme_chars =
     ''abcdefghijklmnopqrstuvwxyz'' @ ''ABCDEFGHIJKLMNOPQRSTUVWXYZ'' @ ''0123456789'' @ ''+-.''"

definition uses_netloc :: "string list" where
  "uses_netloc = ['''', ''ftp'', ''http'', ''gopher'', ''nntp'', ''telnet'', ''imap'', ''wais'',
     ''file'', ''mms'', ''https'', ''shttp'', ''snews'', ''prospero'', ''rtsp'',
     ''rtspu'', ''rsync'', ''svn'', ''svn+ssh'', ''sftp'', ''nfs'', ''git'', ''git+ssh'',
     ''ws'', ''wss'']"

definition uses_params :: "string list" where
  "uses_params = ['''', ''ftp'', ''hdl'', ''prospero'', ''http'', ''imap'', ''https'', ''shttp'',
     ''rtsp'', ''rtspu'', ''sip'', ''sips'', ''mms'', ''sftp'', ''tel'']"

definition ascii_lower :: "char \<Rightarrow> char" where
  \<comment> \<open>\<open>str.lower\<close> on an ASCII character.\<close>
  "ascii_lower c =
     (let n = (of_char c :: nat) in if 65 \<le> n \<and> n \<le> 90 then char_of (n + 32) else c)"

definition before_char :: "char \<Rightarrow> string \<Rightarrow> string" where
  \<comment> \<open>\<open>s[:s.find(c)]\<close> when \<open>c\<close> occurs in \<open>s\<close>.\<close>
  "before_char c s = takeWhile (\<lambda>x. x \<noteq> c) s"

definition after_char :: "char \<Rightarrow> string \<Rightarrow> string" where
  \<comment> \<open>\<open>s[s.find(c)+1:]\<close> when \<open>c\<close> occurs in \<open>s\<close>.\<close>
  "after_char c s = drop 1 (dropWhile (\<lambda>x. x \<noteq> c) s)"

definition split_scheme :: "string \<Rightarrow> string \<times> string" where
  \<comment> \<open>\<open>i = url.find(':')\<close>; when \<open>i > 0\<close> and every character of \<open>url[:i]\<close> is a scheme
      character, the scheme is \<open>url[:i].lower()\<close> and the rest \<open>url[i+1:]\<close>.\<close>
  "split_scheme url =
     (if CHR '':'' \<in> set url \<and> before_char CHR '':'' url \<noteq> [] \<and>
         list_all (\<lambda>c. c \<in> set scheme_chars) (before_char CHR '':'' url)
      then (map ascii_lower (before_char CHR '':'' url), after_char CHR '':'' url)
      else ([], url))"

definition splitnetloc :: "string \<Rightarrow> string \<times> string" where
  \<comment> \<open>\<open>_splitnetloc(url, 2)\<close>: the network location runs from index 2 to the first of
      \<open>/\<close>, \<open>?\<close>, \<open>#\<close>.\<close>
  "splitnetloc url =
     (takeWhile (\<lambda>c. c \<notin> set ''/?#'') (drop 2 url),
      dropWhile (\<lambda>c. c \<notin> set ''/?#'') (drop 2 url))"

definition split_first :: "char \<Rightarrow> string \<Rightarrow> string \<times> string" where
  \<comment> \<open>\<open>if c in url: url, x = url.split(c, 1)\<close>, else \<open>x\<close> stays empty.\<close>
  "split_first c url =
     (if c \<in> set url then (before_char c url, after_char c url) else (url, []))"

definition urlsplit :: "string \<Rightarrow> exn + (string \<times> string \<times> string \<times> string \<times> string)" where
  "urlsplit url0 =
     (let url1 = filter (\<lambda>c. c \<notin> {CHR 0x09, CHR 0x0D, CHR 0x0A}) url0;
          (scheme, url2) = split_scheme url1;
          (netloc, url3) = (if take 2 url2 = ''//'' then splitnetloc url2 else ([], url2))
      in if (CHR ''['' \<in> set netloc \<and> CHR '']'' \<notin> set netloc) \<or>
            (CHR '']'' \<in> set netloc \<and> CHR ''['' \<notin> set netloc)
         then Inl ValueError
         else (let (url4, fragment) = split_first CHR ''#'' url3;
                   (url5, query) = split_first CHR ''?'' url4
               in Inr (scheme, netloc, url5, query, fragment)))"

definition splitparams :: "string \<Rightarrow> string \<times> string" where
  \<comment> \<open>\<open>_splitparams\<close>, called on a path that contains \<open>;\<close>: the parameters start at the
      first \<open>;\<close> of the last path segment.\<close>
  "splitparams url =
     (if CHR ''/'' \<in> set url
      then (let seg = rev (takeWhile (\<lambda>c. c \<noteq> CHR ''/'') (rev url));
                k = length url - length seg
            in if CHR '';'' \<in> set seg
               then (take k url @ before_char CHR '';'' seg, after_char CHR '';'' seg)
               else (url, []))
      else (before_char CHR '';'' url, after_char CHR '';'' url))"

definition urlunsplit :: "string \<Rightarrow> string \<Rightarrow> string \<Rightarrow> string \<Rightarrow> string \<Rightarrow> string" where
  "urlunsplit scheme netloc url0 query fragment =
     (let url1 = (if netloc \<noteq> [] \<or>
                     (scheme \<noteq> [] \<and> scheme \<in> set uses_netloc \<and> take 2 url0 \<noteq> ''//'')
                  then ''//'' @ netloc @
                       (if url0 \<noteq> [] \<and> take 1 url0 \<noteq> ''/'' then ''/'' @ url0 else url0)
                  else url0);
          url2 = (if scheme \<noteq> [] then scheme @ '':'' @ url1 else url1);
          url3 = (if query \<noteq> [] then url2 @ ''?'' @ query else url2)
      in if fragment \<noteq> [] then url3 @ ''#'' @ fragment else url3)"

record parse_result =
  scheme :: string
  netloc :: string
  path :: string
  params :: string
  query :: string
  fragment :: string

definition urlparse :: "string \<Rightarrow> exn + parse_result" where
  "urlparse url =
     (case urlsplit url of
        Inl e \<Rightarrow> Inl e
      | Inr (scheme0, netloc0, url1, query0, fragment0) \<Rightarrow>
          (let (url2, params0) =
                 (if scheme0 \<in> set uses_params \<and> CHR '';'' \<in> set url1
                  then splitparams url1 else (url1, []))
           in Inr \<lparr>scheme = scheme0, netloc = netloc0, path = url2, params = params0,
                    query = query0, fragment = fragment0\<rparr>))"

definition urlunparse :: "parse_result \<Rightarrow> string" where
  "urlunparse p =
     urlunsplit (scheme p) (netloc p)
       (if params p \<noteq> [] then path p @ '';'' @ params p else path p) (query p) (fragment p)"

definition is_hexdig :: "char \<Rightarrow> bool" where
  "is_hexdig c = (c \<in> set ''0123456789ABCDEFabcdef'')"

definition hexval :: "char \<Rightarrow> nat" where
  "hexval c =
     (let n = (of_char c :: nat)
      in if n \<le> 57 then n - 48 else if n \<le> 70 then n - 55 else n - 87)"

fun unquote :: "string \<Rightarrow> string" where
  \<comment> \<open>\<open>%xx\<close> escapes replaced by the character of that code. An escape above \<open>%7F\<close> is
      left here as that single character, where Python decodes the run as UTF-8; no such
      character equals an ASCII one either way.\<close>
  "unquote [] = []"
| "unquote (c # cs) =
     (if c = CHR ''%''
      then (case cs of
              h1 # h2 # rest \<Rightarrow>
                (if is_hexdig h1 \<and> is_hexdig h2
                 then char_of (16 * hexval h1 + hexval h2) # unquote rest
                 else c # unquote cs)
            | _ \<Rightarrow> c # unquote cs)
      else c # unquote cs)"

definition unquote_plus :: "string \<Rightarrow> string" where
  "unquote_plus s = unquote (map (\<lambda>c. if c = CHR ''+'' then CHR '' '' else c) s)"

fun qsl_fields :: "string list \<Rightarrow> (string \<times> string) list" where
  \<comment> \<open>The loop of \<open>parse_qsl\<close> without \<open>keep_blank_values\<close> and \<open>strict_parsing\<close>: a field
      with no \<open>=\<close> or with an empty value is dropped.\<close>
  "qsl_fields [] = []"
| "qsl_fields (name_value # rest) =
     (if name_value \<noteq> [] \<and> CHR ''='' \<in> set name_value \<and> after_char CHR ''='' name_value \<noteq> []
      then (unquote_plus (before_char CHR ''='' name_value),
            unquote_plus (after_char CHR ''='' name_value)) # qsl_fields rest
      else qsl_fields rest)"

definition parse_qsl :: "string \<Rightarrow> (string \<times> string) list" where
  "parse_qsl qs = qsl_fields (split ''&'' qs)"

fun qs_dict :: "(string \<times> string) list \<Rightarrow> (string \<rightharpoonup> string list) \<Rightarrow> (string \<rightharpoonup> string list)" where
  "qs_dict [] parsed_result = parsed_result"
| "qs_dict ((name, val) # pairs) parsed_result =
     qs_dict pairs
       (parsed_result(name \<mapsto> (case parsed_result name of None \<Rightarrow> [val] | Some vs \<Rightarrow> vs @ [val])))"

definition parse_qs :: "string \<Rightarrow> (string \<rightharpoonup> string list)" where
  "parse_qs qs = qs_dict (parse_qsl qs) Map.empty"

definition ensure_auto_parameter :: "string \<Rightarrow> exn + string" where
  "ensure_auto_parameter url =
     (case urlparse url of
        Inl e \<Rightarrow> Inl e
      | Inr parsed_url \<Rightarrow>
          (let query_params = parse_qs (query parsed_url)
           in if query_params ''auto'' = None
              then (let new_query = (if query parsed_url \<noteq> [] then query parsed_url @ ''&auto''
                                     else ''auto'')
                    in Inr (urlunparse (parsed_url\<lparr>query := new_query\<rparr>)))
              else Inr url))"

section \<open>Numbers: \<open>float()\<close>, \<open>int()\<close> and true division\<close>

text \<open>
  A Python float is modelled by the number it stands for: \<open>Finite r\<close> is the binary64
  value nearest to the rational \<open>r\<close>. The rounding of \<open>r\<close> to 53 bits and the sign of
  zero are not represented; the range is: a magnitude that rounds to \<open>2 ^ 1024\<close> or
  more is an infinity when it comes from a string, and an OverflowError when it comes from
  an integer.
\<close>

datatype pyfloat = Finite rat | PosInf | NegInf | NaN

datatype pyval = PyStr string | PyInt int | PyFloat pyfloat

definition float_limit :: rat where
  \<comment> \<open>The least magnitude that no longer rounds to a finite binary64 value.\<close>
  "float_limit = 2 ^ 1024 - 2 ^ 970"

definition round_range :: "rat \<Rightarrow> pyfloat" where
  "round_range r =
     (if float_limit \<le> r then PosInf else if r \<le> - float_limit then NegInf else Finite r)"

definition num_isspace :: "char \<Rightarrow> bool" where
  \<comment> \<open>The whitespace that \<open>float()\<close> and \<open>int()\<close> accept around a number.\<close>
  "num_isspace c = ((of_char c :: nat) \<in> {9, 10, 11, 12, 13, 32, 133, 160})"

definition num_strip :: "string \<Rightarrow> string" where
  "num_strip s = rev (dropWhile num_isspace (rev (dropWhile num_isspace s)))"

definition is_digit :: "char \<Rightarrow> bool" where
  "is_digit c = (c \<in> set ''0123456789'')"

definition digits_val :: "string \<Rightarrow> int" where
  "digits_val ds = foldl (\<lambda>n c. 10 * n + (int (of_char c) - 48)) 0 ds"

fun strip_underscores :: "char \<Rightarrow> string \<Rightarrow> string option" where
  \<comment> \<open>An underscore is allowed between two digits only; \<open>prev\<close> is the character before.\<close>
  "strip_underscores prev [] = (if prev = CHR ''_'' then None else Some [])"
| "strip_underscores prev (c # cs) =
     (if c = CHR ''_''
      then (if is_digit prev then strip_underscores c cs else None)
      else if prev = CHR ''_'' \<and> \<not> is_digit c then None
      else map_option ((#) c) (strip_underscores c cs))"

definition take_sign :: "string \<Rightarrow> int \<times> string" where
  "take_sign s =
     (case s of
        [] \<Rightarrow> (1, [])
      | c # cs \<Rightarrow> if c = CHR ''-'' then (- 1, cs) else if c = CHR ''+'' then (1, cs) else (1, s))"

definition scale10 :: "int \<Rightarrow> int \<Rightarrow> pyfloat" where
  \<comment> \<open>The float of \<open>m\<close> times ten to the \<open>e\<close>.\<close>
  "scale10 m e =
     round_range (if 0 \<le> e then of_int m * 10 ^ nat e else of_int m / 10 ^ nat (- e))"

definition parse_decimal :: "int \<Rightarrow> string \<Rightarrow> pyfloat option" where
  \<comment> \<open>Digits, an optional point and digits, an optional exponent; all of \<open>r\<close> is read.\<close>
  "parse_decimal sg r =
     (let ip = takeWhile is_digit r;
          r1 = dropWhile is_digit r;
          has_point = (r1 \<noteq> [] \<and> hd r1 = CHR ''.'');
          fp = (if has_point then takeWhile is_digit (tl r1) else []);
          r2 = (if has_point then dropWhile is_digit (tl r1) else r1)
      in if ip = [] \<and> fp = [] then None
         else (case r2 of
                 [] \<Rightarrow> Some (scale10 (sg * digits_val (ip @ fp)) (- int (length fp)))
               | c # r3 \<Rightarrow>
                   (if c = CHR ''e'' \<or> c = CHR ''E''
                    then (case take_sign r3 of
                            (es, r4) \<Rightarrow>
                              if r4 \<noteq> [] \<and> list_all is_digit r4
                              then Some (scale10 (sg * digits_val (ip @ fp))
                                           (es * digits_val r4 - int (length fp)))
                              else None)
                    else None)))"

definition py_float_str :: "string \<Rightarrow> pyfloat option" where
  \<comment> \<open>\<open>float(s)\<close> for a string; \<open>None\<close> is the ValueError.\<close>
  "py_float_str s =
     (case strip_underscores (CHR 0x00) (num_strip s) of
        None \<Rightarrow> None
      | Some u \<Rightarrow>
          (case take_sign u of
             (sg, r) \<Rightarrow>
               if map ascii_lower r = ''inf'' \<or> map ascii_lower r = ''infinity''
               then Some (if sg = 1 then PosInf else NegInf)
               else if map ascii_lower r = ''nan'' then Some NaN
               else parse_decimal sg r))"

definition py_int_str :: "string \<Rightarrow> int option" where
  \<comment> \<open>\<open>int(s)\<close> for a string, base ten; \<open>None\<close> is the ValueError.\<close>
  "py_int_str s =
     (case take_sign (num_strip s) of
        (sg, r) \<Rightarrow>
          (case strip_underscores (CHR 0x00) r of
             None \<Rightarrow> None
           | Some ds \<Rightarrow> if ds \<noteq> [] \<and> list_all is_digit ds then Some (sg * digits_val ds) else None))"

definition float_of_int :: "int \<Rightarrow> exn + pyfloat" where
  "float_of_int n =
     (if \<bar>of_int n\<bar> < float_limit then Inr (Finite (of_int n)) else Inl OverflowError)"

fun py_float :: "pyval \<Rightarrow> exn + pyfloat" where
  "py_float (PyStr s) = (case py_float_str s of None \<Rightarrow> Inl ValueError | Some f \<Rightarrow> Inr f)"
| "py_float (PyInt n) = float_of_int n"
| "py_float (PyFloat f) = Inr f"

fun py_int :: "pyval \<Rightarrow> exn + int" where
  "py_int (PyStr s) = (case py_int_str s of None \<Rightarrow> Inl ValueError | Some n \<Rightarrow> Inr n)"
| "py_int (PyInt n) = Inr n"
| "py_int (PyFloat (Finite r)) = Inr (if 0 \<le> r then \<lfloor>r\<rfloor> else \<lceil>r\<rceil>)"
| "py_int (PyFloat NaN) = Inl ValueError"
| "py_int (PyFloat _) = Inl OverflowError"

definition true_div :: "int \<Rightarrow> int \<Rightarrow> exn + pyval" where
  \<comment> \<open>\<open>a / b\<close> on two integers.\<close>
  "true_div a b =
     (if b = 0 then Inl ZeroDivisionError
      else if float_limit \<le> \<bar>of_int a / of_int b\<bar> then Inl OverflowError
      else Inr (PyFloat (Finite (of_int a / of_int b))))"

section \<open>The gauges and the process state\<close>

datatype gauge =
    apache_total_accesses
  | apache_cpu_load
  | apache_uptime
  | apache_req_per_sec
  | apache_bytes_per_sec
  | apache_worker_ratio
  | apache_busy_workers
  | apache_idle_workers

text \<open>
  Each gauge has one child per value of its \<open>hostname\<close> label, created by the first
  \<open>labels(hostname=...)\<close> call with the value 0. The registry maps gauge and label to the
  child's value, \<open>None\<close> while the child does not exist.
\<close>

type_synonym registry = "gauge \<times> string \<Rightarrow> pyfloat option"

datatype message =
    Updating string            \<comment> \<open>\<open>Updating server metrics for {server_label}\<close>\<close>
  | ErrorFetching string exn   \<comment> \<open>\<open>Error fetching data from {server_label}: {e}\<close>\<close>

record world =
  gauges :: registry
  environ :: "string \<rightharpoonup> string"               \<comment> \<open>\<open>os.environ\<close>\<close>
  stdout :: "message list"                         \<comment> \<open>the lines printed\<close>
  requests :: "(string \<times> string option) list"   \<comment> \<open>the calls of \<open>session.get\<close>: URL and proxy\<close>

definition print :: "message \<Rightarrow> world \<Rightarrow> world" where
  "print line w = w\<lparr>stdout := stdout w @ [line]\<rparr>"

definition labels :: "gauge \<Rightarrow> string \<Rightarrow> world \<Rightarrow> world" where
  "labels g hostname w =
     (if gauges w (g, hostname) = None
      then w\<lparr>gauges := (gauges w)((g, hostname) \<mapsto> Finite 0)\<rparr>
      else w)"

definition set_gauge :: "gauge \<Rightarrow> string \<Rightarrow> exn + pyval \<Rightarrow> world \<Rightarrow> exn option \<times> world" where
  \<comment> \<open>\<open>g.labels(hostname=server_label).set(arg)\<close>: the child is looked up (and created)
      before the argument is evaluated, and \<open>set\<close> stores \<open>float(value)\<close>.\<close>
  "set_gauge g server_label arg w =
     (let w1 = labels g server_label w
      in case arg of
           Inl e \<Rightarrow> (Some e, w1)
         | Inr v \<Rightarrow>
             (case py_float v of
                Inl e \<Rightarrow> (Some e, w1)
              | Inr f \<Rightarrow> (None, w1\<lparr>gauges := (gauges w1)((g, server_label) \<mapsto> f)\<rparr>)))"

definition then_do ::
  "exn option \<times> world \<Rightarrow> (world \<Rightarrow> exn option \<times> world) \<Rightarrow> exn option \<times> world" where
  \<comment> \<open>The next statement runs unless the one before raised.\<close>
  "then_do r f = (case r of (None, w) \<Rightarrow> f w | (Some e, w) \<Rightarrow> (Some e, w))"

section \<open>update_metrics\<close>

definition dict_get :: "status \<Rightarrow> string \<Rightarrow> int \<Rightarrow> pyval" where
  \<comment> \<open>\<open>server_status.get(key, default)\<close>\<close>
  "dict_get server_status key d =
     (case server_status key of Some s \<Rightarrow> PyStr s | None \<Rightarrow> PyInt d)"

definition float_field :: "status \<Rightarrow> string \<Rightarrow> exn + pyval" where
  \<comment> \<open>\<open>float(server_status.get(key, 0))\<close>\<close>
  "float_field server_status key = map_sum id PyFloat (py_float (dict_get server_status key 0))"

definition int_field :: "status \<Rightarrow> string \<Rightarrow> exn + int" where
  \<comment> \<open>\<open>int(server_status.get(key, 0))\<close>\<close>
  "int_field server_status key = py_int (dict_get server_status key 0)"

definition worker_ratio :: "int \<Rightarrow> int \<Rightarrow> exn + pyval" where
  "worker_ratio busy_workers idle_workers =
     (if idle_workers > 0 then true_div busy_workers idle_workers
      else Inr (PyInt busy_workers))"

definition update_metrics :: "string \<Rightarrow> status \<Rightarrow> bool \<Rightarrow> world \<Rightarrow> exn option \<times> world" where
  "update_metrics server_label server_status verbose w0 =
     then_do (None, if verbose then print (Updating server_label) w0 else w0) (\<lambda>w.
     then_do (set_gauge apache_total_accesses server_label
                (float_field server_status ''Total Accesses'') w) (\<lambda>w.
     then_do (set_gauge apache_cpu_load server_label
                (float_field server_status ''CPULoad'') w) (\<lambda>w.
     then_do (set_gauge apache_uptime server_label
                (float_field server_status ''Uptime'') w) (\<lambda>w.
     then_do (set_gauge apache_req_per_sec server_label
                (float_field server_status ''ReqPerSec'') w) (\<lambda>w.
     then_do (set_gauge apache_bytes_per_sec server_label
                (float_field server_status ''BytesPerSec'') w) (\<lambda>w.
     case int_field server_status ''BusyWorkers'' of
       Inl e \<Rightarrow> (Some e, w)
     | Inr busy_workers \<Rightarrow>
     case int_field server_status ''IdleWorkers'' of
       Inl e \<Rightarrow> (Some e, w)
     | Inr idle_workers \<Rightarrow>
     then_do (set_gauge apache_busy_workers server_label (Inr (PyInt busy_workers)) w) (\<lambda>w.
     then_do (set_gauge apache_idle_workers server_label (Inr (PyInt idle_workers)) w) (\<lambda>w.
     case worker_ratio busy_workers idle_workers of
       Inl e \<Rightarrow> (Some e, w)
     | Inr ratio \<Rightarrow> set_gauge apache_worker_ratio server_label (Inr ratio) w))))))))"

section \<open>fetch_apache_status, fetch_and_update, collect_metrics\<close>

text \<open>
  The HTTP client is a parameter \<open>net\<close>: for a URL and the proxy passed to
  \<open>session.get\<close> it gives the body that \<open>response.text()\<close> returns, or the exception
  that \<open>session.get\<close>, \<open>raise_for_status\<close> or \<open>text\<close> raises. Only subclasses of
  \<open>Exception\<close> are represented; a cancellation, which \<open>except Exception\<close> lets
  through, is not.
\<close>

type_synonym network = "string \<Rightarrow> string option \<Rightarrow> exn + string"

definition fetch_apache_status ::
  "network \<Rightarrow> string \<Rightarrow> string option \<Rightarrow> string option \<Rightarrow> world \<Rightarrow> (exn + status) \<times> world" where
  "fetch_apache_status net url http_proxy https_proxy w0 =
     (let proxies0 = (Map.empty :: string \<rightharpoonup> string);
          (proxies1, w1) =
            (case http_proxy of
               Some p \<Rightarrow> (proxies0(''http'' \<mapsto> p), w0\<lparr>environ := (environ w0)(''http_proxy'' \<mapsto> p)\<rparr>)
             | None \<Rightarrow> (proxies0, w0));
          (proxies2, w2) =
            (case https_proxy of
               Some p \<Rightarrow> (proxies1(''https'' \<mapsto> p), w1\<lparr>environ := (environ w1)(''https_proxy'' \<mapsto> p)\<rparr>)
             | None \<Rightarrow> (proxies1, w1));
          w3 = w2\<lparr>requests := requests w2 @ [(url, proxies2 ''http'')]\<rparr>
      in case net url (proxies2 ''http'') of
           Inl e \<Rightarrow> (Inl e, w3)
         | Inr data \<Rightarrow> (Inr (parse_status data), w3))"

definition fetch_and_update ::
  "network \<Rightarrow> string \<Rightarrow> string \<Rightarrow> string option \<Rightarrow> string option \<Rightarrow> bool \<Rightarrow> world \<Rightarrow> world" where
  \<comment> \<open>The \<open>try\<close> block and its \<open>except Exception\<close> handler.\<close>
  "fetch_and_update net server_label url http_proxy https_proxy verbose w =
     (case fetch_apache_status net url http_proxy https_proxy w of
        (Inl e, w1) \<Rightarrow> print (ErrorFetching server_label e) w1
      | (Inr server_status, w1) \<Rightarrow>
          (case update_metrics server_label server_status verbose w1 of
             (Some e, w2) \<Rightarrow> print (ErrorFetching server_label e) w2
           | (None, w2) \<Rightarrow> w2))"

text \<open>
  The configuration is the list of the sections of the parsed file (\<open>config.sections()\<close>,
  whose names are distinct), each with its options as \<open>config[section].get\<close> returns
  them: under their lower-case names, defaults and interpolation applied. A task is what
  \<open>asyncio.create_task(fetch_and_update(...))\<close> was given.
\<close>

type_synonym config = "(string \<times> (string \<rightharpoonup> string)) list"

type_synonym task = "string \<times> string \<times> string option \<times> string option"

definition option_get :: "(string \<rightharpoonup> string) \<Rightarrow> string \<Rightarrow> string option \<Rightarrow> string option" where
  \<comment> \<open>\<open>config[server_label].get(option, fallback)\<close>\<close>
  "option_get section opt fallback = (case section opt of Some v \<Rightarrow> Some v | None \<Rightarrow> fallback)"

fun make_tasks :: "config \<Rightarrow> string option \<Rightarrow> string option \<Rightarrow> exn + task list" where
  \<comment> \<open>The \<open>for\<close> loop of \<open>collect_metrics\<close>; a missing \<open>url\<close> is a KeyError, and an
      exception of \<open>ensure_auto_parameter\<close> is not handled either.\<close>
  "make_tasks [] global_http_proxy global_https_proxy = Inr []"
| "make_tasks ((server_label, section) # sections) global_http_proxy global_https_proxy =
     (if server_label = ''config''
      then make_tasks sections global_http_proxy global_https_proxy
      else (case section ''url'' of
              None \<Rightarrow> Inl KeyError
            | Some u \<Rightarrow>
                (case ensure_auto_parameter u of
                   Inl e \<Rightarrow> Inl e
                 | Inr url \<Rightarrow>
                     (case make_tasks sections global_http_proxy global_https_proxy of
                        Inl e \<Rightarrow> Inl e
                      | Inr tasks \<Rightarrow>
                          Inr ((server_label, url,
                                option_get section ''http_proxy'' global_http_proxy,
                                option_get section ''https_proxy'' global_https_proxy)
                               # tasks)))))"

fun gather :: "network \<Rightarrow> bool \<Rightarrow> task list \<Rightarrow> world \<Rightarrow> world" where
  \<comment> \<open>\<open>await asyncio.gather(*tasks)\<close>. The tasks interleave only where they wait for the
      network, and \<open>update_metrics\<close> runs without waiting; each task is run here to its
      end, in the order of creation.\<close>
  "gather net verbose [] w = w"
| "gather net verbose ((server_label, url, http_proxy, https_proxy) # tasks) w =
     gather net verbose tasks
       (fetch_and_update net server_label url http_proxy https_proxy verbose w)"

text \<open>
  \<open>Inl e\<close>: the exception leaves \<open>collect_metrics\<close> and, through \<open>asyncio.run\<close>, the
  loop of \<open>main\<close>.
\<close>

definition collect_metrics ::
  "network \<Rightarrow> config \<Rightarrow> string option \<Rightarrow> string option \<Rightarrow> bool \<Rightarrow> world \<Rightarrow> exn + world" where
  "collect_metrics net cfg global_http_proxy global_https_proxy verbose w =
     (case make_tasks cfg global_http_proxy global_https_proxy of
        Inl e \<Rightarrow> Inl e
      | Inr tasks \<Rightarrow> Inr (gather net verbose tasks w))"

section \<open>Notions used to state the properties\<close>

subsection \<open>Lines, separators and entries of a status page\<close>

fun lines_of :: "string \<Rightarrow> string list" where
  \<comment> \<open>The lines of a text: the pieces between its newline characters.\<close>
  "lines_of [] = ['''']"
| "lines_of (c # cs) =
     (if c = NL then [] # lines_of cs
      else (case lines_of cs of l # ls \<Rightarrow> (c # l) # ls | [] \<Rightarrow> [c] # []))"

fun count_sep :: "string \<Rightarrow> nat" where
  \<comment> \<open>The number of places of a line where the sequence colon, space starts.\<close>
  "count_sep [] = 0"
| "count_sep (c # cs) = (if prefix '': '' (c # cs) then 1 else 0) + count_sep cs"

fun before_sep :: "string \<Rightarrow> string" where
  \<comment> \<open>What stands before the first colon, space of a line.\<close>
  "before_sep [] = []"
| "before_sep (c # cs) = (if prefix '': '' (c # cs) then [] else c # before_sep cs)"

fun after_sep :: "string \<Rightarrow> string" where
  \<comment> \<open>What stands after the first colon, space of a line.\<close>
  "after_sep [] = []"
| "after_sep (c # cs) = (if prefix '': '' (c # cs) then drop 2 (c # cs) else after_sep cs)"

definition trimmed :: "string \<Rightarrow> bool" where
  "trimmed s = (s = [] \<or> (\<not> py_isspace (hd s) \<and> \<not> py_isspace (last s)))"

definition entry_of :: "string \<Rightarrow> string \<times> string" where
  \<comment> \<open>The trimmed key and the trimmed value of a line.\<close>
  "entry_of item = (strip (before_sep item), strip (after_sep item))"

definition kept_lines :: "string \<Rightarrow> string list" where
  \<comment> \<open>The lines with exactly one separator, in their order.\<close>
  "kept_lines data = filter (\<lambda>item. count_sep item = 1) (lines_of data)"

subsection \<open>Ordinary http URLs and the fields of their query\<close>





definition no_tab_newline :: "string \<Rightarrow> bool" where
  "no_tab_newline s = list_all (\<lambda>c. c \<notin> {CHR 0x09, CHR 0x0D, CHR 0x0A}) s"


subsection \<open>The projection's fields\<close>







subsection \<open>What a statement of update_metrics does to a gauge\<close>

text \<open>
  Every statement of \<open>update_metrics\<close> leaves a child as it is, creates it at 0 if it
  is missing, or stores a value in it; which of the three does not depend on the registry.
\<close>

datatype eff = Keep | Touch | Put pyfloat

fun apply_eff :: "eff \<Rightarrow> pyfloat option \<Rightarrow> pyfloat option" where
  "apply_eff Keep x = x"
| "apply_eff Touch x = (case x of None \<Rightarrow> Some (Finite 0) | Some v \<Rightarrow> Some v)"
| "apply_eff (Put f) x = Some f"

fun comp_eff :: "eff \<Rightarrow> eff \<Rightarrow> eff" where
  \<comment> \<open>\<open>comp_eff a b\<close>: first \<open>b\<close>, then \<open>a\<close>.\<close>
  "comp_eff Keep b = b"
| "comp_eff (Put f) b = Put f"
| "comp_eff Touch Keep = Touch"
| "comp_eff Touch Touch = Touch"
| "comp_eff Touch (Put f) = Put f"

definition uniform_step :: "(world \<Rightarrow> exn option \<times> world) \<Rightarrow> bool" where
  "uniform_step f \<longleftrightarrow>
     (\<exists>out T. \<forall>w. fst (f w) = out \<and> (\<forall>k. gauges (snd (f w)) k = apply_eff (T k) (gauges w k)))"

definition uniform_w :: "(world \<Rightarrow> world) \<Rightarrow> bool" where
  "uniform_w f \<longleftrightarrow> (\<exists>T. \<forall>w k. gauges (f w) k = apply_eff (T k) (gauges w k))"

definition keeps :: "gauge \<times> string \<Rightarrow> (world \<Rightarrow> exn option \<times> world) \<Rightarrow> bool" where
  "keeps k f \<longleftrightarrow> (\<forall>w. gauges (snd (f w)) k = gauges w k)"

definition arg_outcome :: "exn + pyval \<Rightarrow> exn option" where
  \<comment> \<open>The exception, if any, of \<open>g.labels(...).set(arg)\<close>.\<close>
  "arg_outcome a =
     (case a of Inl e \<Rightarrow> Some e
      | Inr v \<Rightarrow> (case py_float v of Inl e \<Rightarrow> Some e | Inr f \<Rightarrow> None))"

definition or_else :: "exn option \<Rightarrow> exn option \<Rightarrow> exn option" where
  \<comment> \<open>The first exception of two statements in sequence.\<close>
  "or_else a b = (case a of Some e \<Rightarrow> Some e | None \<Rightarrow> b)"

definition ratio_outcome :: "int \<Rightarrow> int \<Rightarrow> exn option" where
  "ratio_outcome b i = (case worker_ratio b i of Inl e \<Rightarrow> Some e | Inr r \<Rightarrow> arg_outcome (Inr r))"

definition ints_outcome :: "exn + int \<Rightarrow> exn + int \<Rightarrow> exn option" where
  "ints_outcome rb ri =
     (case rb of Inl e \<Rightarrow> Some e
      | Inr b \<Rightarrow>
          (case ri of Inl e \<Rightarrow> Some e
           | Inr i \<Rightarrow>
               or_else (arg_outcome (Inr (PyInt b)))
                 (or_else (arg_outcome (Inr (PyInt i))) (ratio_outcome b i))))"

subsection \<open>One target's unit of work, seen from outside\<close>

definition empty_world :: world where
  \<comment> \<open>The process before the first cycle.\<close>
  "empty_world = \<lparr>gauges = Map.empty, environ = Map.empty, stdout = [], requests = []\<rparr>"


definition unit_gauge :: "network \<Rightarrow> bool \<Rightarrow> task \<Rightarrow> world \<Rightarrow> gauge \<Rightarrow> pyfloat option" where
  \<comment> \<open>The value of the task's own gauge \<open>g\<close> when the task runs alone from \<open>w\<close>.\<close>
  "unit_gauge net verbose t w g =
     (case t of (server_label, url, http_proxy, https_proxy) \<Rightarrow>
        (case net url http_proxy of
           Inl e \<Rightarrow> gauges w (g, server_label)
         | Inr data \<Rightarrow>
             gauges (snd (update_metrics server_label (parse_status data) verbose w))
               (g, server_label)))"

subsection \<open>Sample pages, networks, configurations and states\<close>

definition serve :: "string \<Rightarrow> network" where
  \<comment> \<open>Every request is answered with the page.\<close>
  "serve page url proxy = Inr page"

definition one_down :: network where
  \<comment> \<open>The target at a.example answers, every other request times out.\<close>
  "one_down url proxy =
     (if url = ''http://a.example/server-status?auto=1'' then Inr ''Total Accesses: 5''
      else Inl (ClientError ''timeout''))"





definition page_bad_cpu :: string where
  "page_bad_cpu = ''Total Accesses: 5'' @ [NL] @ ''CPULoad: abc''"

definition world_total_1 :: world where
  "world_total_1 = empty_world\<lparr>gauges := [(apache_total_accesses, ''a'') \<mapsto> Finite 1]\<rparr>"



definition config_two :: config where
  "config_two =
     [(''config'', [''url'' \<mapsto> ''http://c.example/server-status?auto=1'']),
      (''a'', [''url'' \<mapsto> ''http://a.example/server-status?auto=1'']),
      (''b'', [''url'' \<mapsto> ''http://b.example/server-status?auto=1''])]"

definition tasks_two :: "task list" where
  "tasks_two =
     [(''a'', ''http://a.example/server-status?auto=1'', None, None),
      (''b'', ''http://b.example/server-status?auto=1'', None, None)]"

section \<open>Lemmas\<close>

subsection \<open>The parser\<close>

lemma split_from_colon:
  "split_from '': '' cur s =
     (if count_sep s = 0 then [rev cur @ s]
      else (rev cur @ before_sep s) # split_from '': '' [] (after_sep s))"
  by (induction s arbitrary: cur) auto

lemma count_after: "0 < count_sep s \<Longrightarrow> count_sep s = Suc (count_sep (after_sep s))"
proof (induction s)
  case Nil
  then show ?case by simp
next
  case (Cons c cs)
  show ?case
  proof (cases "prefix '': '' (c # cs)")
    case True
    then obtain r where "cs = CHR '' '' # r" by (cases cs) auto
    with True show ?thesis by auto
  next
    case False
    then have "count_sep (c # cs) = count_sep cs" "after_sep (c # cs) = after_sep cs"
      by auto
    with Cons show ?thesis by simp
  qed
qed

lemma length_split_from: "length (split_from '': '' cur s) = Suc (count_sep s)"
proof (induction "count_sep s" arbitrary: s cur)
  case 0
  then show ?case by (subst split_from_colon) simp
next
  case (Suc n)
  then have "count_sep (after_sep s) = n" using count_after[of s] by simp
  with Suc show ?case by (subst split_from_colon) simp
qed

lemma split_one:
  assumes "count_sep s = 1"
  shows "split '': '' s = [before_sep s, after_sep s]"
proof -
  have "count_sep (after_sep s) = 0" using assms count_after[of s] by simp
  then have "split_from '': '' [] (after_sep s) = [after_sep s]"
    by (subst split_from_colon) simp
  with assms show ?thesis unfolding split_def by (subst split_from_colon) simp
qed

lemma lines_of_nonempty: "lines_of s \<noteq> []"
  by (induction s) (auto split: list.splits)

lemma split_lines:
  "split_from [NL] cur s = (case lines_of s of l # ls \<Rightarrow> (rev cur @ l) # ls | [] \<Rightarrow> [])"
  using lines_of_nonempty by (induction s arbitrary: cur) (auto split: list.splits)

lemma split_NL: "split [NL] s = lines_of s"
  using lines_of_nonempty[of s] by (simp add: split_def split_lines split: list.splits)

lemma dropWhile_hd: "dropWhile P xs \<noteq> [] \<Longrightarrow> \<not> P (hd (dropWhile P xs))"
  by (metis hd_dropWhile)

lemma trimmed_strip: "trimmed (strip s)"
proof -
  let ?a = "dropWhile py_isspace s"
  let ?b = "dropWhile py_isspace (rev ?a)"
  show ?thesis
  proof (cases "?b = []")
    case True
    then show ?thesis by (simp add: trimmed_def strip_def)
  next
    case False
    then have l: "\<not> py_isspace (hd ?b)" by (rule dropWhile_hd)
    from False have ne: "?a \<noteq> []"
      by (metis dropWhile.simps(1) rev.simps(1))
    then have h: "\<not> py_isspace (hd ?a)" by (rule dropWhile_hd)
    have "last ?b = last (rev ?a)"
      using False by (metis last_appendR takeWhile_dropWhile_id)
    then have "last ?b = hd ?a" using ne by (simp add: last_rev)
    with h l False show ?thesis
      by (simp add: trimmed_def strip_def hd_rev last_rev)
  qed
qed

lemma split_not_one:
  assumes "count_sep s \<noteq> 1"
  shows "length (split '': '' s) \<noteq> 2"
  using assms by (simp add: split_def length_split_from)

lemma parse_item_kept:
  "count_sep item = 1 \<Longrightarrow>
   parse_items (item # items) st =
   parse_items items (st(strip (before_sep item) \<mapsto> strip (after_sep item)))"
  using split_one[of item] by simp

lemma parse_item_skipped:
  "count_sep item \<noteq> 1 \<Longrightarrow> parse_items (item # items) st = parse_items items st"
  using split_not_one[of item] by (auto split: list.splits)

lemma parse_items_map_of:
  "parse_items items st =
   st ++ map_of (rev (map entry_of (filter (\<lambda>item. count_sep item = 1) items)))"
proof (induction items arbitrary: st)
  case Nil
  then show ?case by simp
next
  case (Cons item items)
  show ?case
  proof (cases "count_sep item = 1")
    case True
    have "parse_items (item # items) st =
          parse_items items (st(strip (before_sep item) \<mapsto> strip (after_sep item)))"
      using True by (rule parse_item_kept)
    also have "\<dots> = st(strip (before_sep item) \<mapsto> strip (after_sep item)) ++
          map_of (rev (map entry_of (filter (\<lambda>item. count_sep item = 1) items)))"
      by (rule Cons.IH)
    finally have step: "parse_items (item # items) st =
          st(strip (before_sep item) \<mapsto> strip (after_sep item)) ++
          map_of (rev (map entry_of (filter (\<lambda>item. count_sep item = 1) items)))" .
    have e: "entry_of item = (strip (before_sep item), strip (after_sep item))"
      by (simp add: entry_of_def)
    show ?thesis unfolding step using True by (simp add: e)
  next
    case False
    then have "parse_items (item # items) st = parse_items items st"
      by (rule parse_item_skipped)
    with False show ?thesis by (simp add: Cons.IH)
  qed
qed

lemma parse_status_map_of: "parse_status data = map_of (rev (map entry_of (kept_lines data)))"
  by (simp add: parse_status_def parse_items_map_of split_NL kept_lines_def)

lemma strip_plain [simp]:
  "strip ''a'' = ''a''" "strip ''b'' = ''b''" "strip ''1'' = ''1''" "strip ''2'' = ''2''"
  "strip ''BusyWorkers'' = ''BusyWorkers''" "strip ''3'' = ''3''" "strip ''7'' = ''7''"
  by (simp_all add: strip_def py_isspace_def)

subsection \<open>The projection, the unit of work and the cycle\<close>

lemma apply_comp_eff: "apply_eff (comp_eff a b) x = apply_eff a (apply_eff b x)"
  by (cases a; cases b; cases x) simp_all

lemma apply_eff_idem: "apply_eff a (apply_eff a x) = apply_eff a x"
  by (cases a; cases x) simp_all

lemma gauges_labels:
  "gauges (labels g l w) k = apply_eff (if k = (g, l) then Touch else Keep) (gauges w k)"
  by (auto simp: labels_def split: option.splits)

lemma gauges_print [simp]: "gauges (print m w) = gauges w"
  by (simp add: print_def)

lemma fst_set_gauge: "fst (set_gauge g l a w) = arg_outcome a"
  by (simp add: set_gauge_def arg_outcome_def Let_def split: sum.splits)

lemma gauges_set_gauge:
  "gauges (snd (set_gauge g l a w)) k =
     apply_eff (if k = (g, l)
                then (case a of Inl e \<Rightarrow> Touch
                      | Inr v \<Rightarrow> (case py_float v of Inl e \<Rightarrow> Touch | Inr f \<Rightarrow> Put f))
                else Keep) (gauges w k)"
  by (auto simp: set_gauge_def Let_def gauges_labels split: sum.splits)

lemma fst_then_do:
  "fst (then_do r f) = (case fst r of None \<Rightarrow> fst (f (snd r)) | Some e \<Rightarrow> Some e)"
  by (cases r) (simp add: then_do_def split: option.splits)

lemma snd_then_do:
  "snd (then_do r f) = (case fst r of None \<Rightarrow> snd (f (snd r)) | Some e \<Rightarrow> snd r)"
  by (cases r) (simp add: then_do_def split: option.splits)

lemma uniform_step_set_gauge: "uniform_step (set_gauge g l a)"
  unfolding uniform_step_def
  by (intro exI allI conjI) (rule fst_set_gauge, rule gauges_set_gauge)

lemma uniform_step_const: "uniform_step (\<lambda>w. (out, w))"
  unfolding uniform_step_def
  by (rule exI[of _ out], rule exI[of _ "\<lambda>k. Keep"]) simp

lemma uniform_step_print: "uniform_step (\<lambda>w. (out, if b then print m w else w))"
  unfolding uniform_step_def
  by (rule exI[of _ out], rule exI[of _ "\<lambda>k. Keep"]) simp

lemma uniform_step_then_do:
  assumes "uniform_step f" and "uniform_step g"
  shows "uniform_step (\<lambda>w. then_do (f w) g)"
proof -
  from assms(1) obtain o1 T1 where
    f: "\<And>w. fst (f w) = o1" "\<And>w k. gauges (snd (f w)) k = apply_eff (T1 k) (gauges w k)"
    unfolding uniform_step_def by blast
  from assms(2) obtain o2 T2 where
    g: "\<And>w. fst (g w) = o2" "\<And>w k. gauges (snd (g w)) k = apply_eff (T2 k) (gauges w k)"
    unfolding uniform_step_def by blast
  show ?thesis
  proof (cases o1)
    case None
    show ?thesis unfolding uniform_step_def
      by (rule exI[of _ o2], rule exI[of _ "\<lambda>k. comp_eff (T2 k) (T1 k)"])
         (simp add: fst_then_do snd_then_do f g None apply_comp_eff)
  next
    case (Some e)
    show ?thesis unfolding uniform_step_def
      by (rule exI[of _ "Some e"], rule exI[of _ T1])
         (simp add: fst_then_do snd_then_do f Some)
  qed
qed

lemma uniform_step_case_sum:
  assumes "\<And>e. uniform_step (\<lambda>w. F e w)" and "\<And>x. uniform_step (\<lambda>w. G x w)"
  shows "uniform_step (\<lambda>w. case c of Inl e \<Rightarrow> F e w | Inr x \<Rightarrow> G x w)"
  using assms by (cases c) simp_all

lemma uniform_step_update_metrics: "uniform_step (update_metrics l st v)"
  unfolding update_metrics_def[abs_def]
  by (intro uniform_step_then_do uniform_step_case_sum uniform_step_set_gauge
        uniform_step_const uniform_step_print)

lemma uniform_step_idem:
  assumes "uniform_step f"
  shows "fst (f (snd (f w))) = fst (f w) \<and> gauges (snd (f (snd (f w)))) = gauges (snd (f w))"
proof -
  from assms obtain out T where
    f: "\<And>w. fst (f w) = out" "\<And>w k. gauges (snd (f w)) k = apply_eff (T k) (gauges w k)"
    unfolding uniform_step_def by blast
  show ?thesis by (auto simp: f fun_eq_iff apply_eff_idem)
qed

lemma keeps_set_gauge: "k \<noteq> (g, l) \<Longrightarrow> keeps k (set_gauge g l a)"
  by (simp add: keeps_def gauges_set_gauge)

lemma keeps_const: "keeps k (\<lambda>w. (out, w))"
  by (simp add: keeps_def)

lemma keeps_print: "keeps k (\<lambda>w. (out, if b then print m w else w))"
  by (simp add: keeps_def)

lemma keeps_then_do:
  assumes "keeps k f" and "keeps k g"
  shows "keeps k (\<lambda>w. then_do (f w) g)"
  using assms by (auto simp: keeps_def snd_then_do split: option.splits)

lemma keeps_case_sum:
  assumes "\<And>e. keeps k (\<lambda>w. F e w)" and "\<And>x. keeps k (\<lambda>w. G x w)"
  shows "keeps k (\<lambda>w. case c of Inl e \<Rightarrow> F e w | Inr x \<Rightarrow> G x w)"
  using assms by (cases c) simp_all

lemma keeps_update_metrics: "snd k \<noteq> l \<Longrightarrow> keeps k (update_metrics l st v)"
  unfolding update_metrics_def[abs_def]
  by (intro keeps_then_do keeps_case_sum keeps_set_gauge keeps_const keeps_print) auto

lemma update_metrics_other_label:
  "l' \<noteq> l \<Longrightarrow> gauges (snd (update_metrics l st v w)) (g, l') = gauges w (g, l')"
  using keeps_update_metrics[of "(g, l')" l st v] by (simp add: keeps_def)



lemma then_do_None: "then_do (None, w) f = f w"
  by (simp add: then_do_def)

lemma then_do_set_gauge:
  "then_do (set_gauge g l a w) f =
     (case arg_outcome a of
        Some e \<Rightarrow> (Some e, snd (set_gauge g l a w))
      | None \<Rightarrow> f (snd (set_gauge g l a w)))"
  using fst_set_gauge[of g l a w]
  by (cases "set_gauge g l a w") (auto simp: then_do_def split: option.splits)

lemma then_do_set_gauge_fst:
  "fst (then_do (set_gauge g l a w) f) = or_else (arg_outcome a) (fst (f (snd (set_gauge g l a w))))"
  by (simp add: then_do_set_gauge or_else_def split: option.splits)

lemma update_metrics_outcome:
  "fst (update_metrics l st v w) =
     or_else (arg_outcome (float_field st ''Total Accesses''))
    (or_else (arg_outcome (float_field st ''CPULoad''))
    (or_else (arg_outcome (float_field st ''Uptime''))
    (or_else (arg_outcome (float_field st ''ReqPerSec''))
    (or_else (arg_outcome (float_field st ''BytesPerSec''))
      (ints_outcome (int_field st ''BusyWorkers'') (int_field st ''IdleWorkers''))))))"
  unfolding update_metrics_def
  by (simp add: then_do_None then_do_set_gauge_fst ints_outcome_def ratio_outcome_def
        fst_set_gauge split: sum.splits)




lemma total_accesses_kept:
  "float_field st ''Total Accesses'' = Inr (PyFloat f) \<Longrightarrow>
   gauges (snd (update_metrics l st v w)) (apache_total_accesses, l) = Some f"
  unfolding update_metrics_def
  by (simp add: then_do_None then_do_set_gauge gauges_set_gauge arg_outcome_def
      split: option.splits sum.splits)


lemma fst_fetch_apache_status:
  "fst (fetch_apache_status net url hp hsp w) = map_sum id parse_status (net url hp)"
  by (cases hp; cases hsp; cases "net url hp") (simp_all add: fetch_apache_status_def)

lemma gauges_fetch_apache_status [simp]:
  "gauges (snd (fetch_apache_status net url hp hsp w)) = gauges w"
  by (cases hp; cases hsp; cases "net url hp") (simp_all add: fetch_apache_status_def)

lemma stdout_fetch_apache_status [simp]:
  "stdout (snd (fetch_apache_status net url hp hsp w)) = stdout w"
  by (cases hp; cases hsp; cases "net url hp") (simp_all add: fetch_apache_status_def)

lemma requests_fetch_apache_status:
  "requests (snd (fetch_apache_status net url hp hsp w)) = requests w @ [(url, hp)]"
  by (cases hp; cases hsp; cases "net url hp") (simp_all add: fetch_apache_status_def)

lemma fetch_and_update_unfold:
  "fetch_and_update net l url hp hsp v w =
     (let w1 = snd (fetch_apache_status net url hp hsp w)
      in case net url hp of
           Inl e \<Rightarrow> print (ErrorFetching l e) w1
         | Inr data \<Rightarrow>
             (case fst (update_metrics l (parse_status data) v w1) of
                Some e \<Rightarrow> print (ErrorFetching l e) (snd (update_metrics l (parse_status data) v w1))
              | None \<Rightarrow> snd (update_metrics l (parse_status data) v w1)))"
proof -
  obtain r w1 where f: "fetch_apache_status net url hp hsp w = (r, w1)" by fastforce
  have r: "r = map_sum id parse_status (net url hp)"
    using fst_fetch_apache_status[of net url hp hsp w] f by simp
  show ?thesis
    by (cases "net url hp")
       (auto simp: fetch_and_update_def f r Let_def split: prod.splits option.splits)
qed

lemma stdout_set_gauge [simp]: "stdout (snd (set_gauge g l a w)) = stdout w"
  by (simp add: set_gauge_def labels_def Let_def split: sum.splits)

lemma stdout_update_metrics:
  "stdout (snd (update_metrics l st v w)) = stdout w @ (if v then [Updating l] else [])"
  unfolding update_metrics_def
  by (simp add: then_do_None then_do_set_gauge print_def split: option.splits sum.splits)


lemma gauges_fetch_failed:
  "net url hp = Inl e \<Longrightarrow> gauges (fetch_and_update net l url hp hsp v w) = gauges w"
  by (simp add: fetch_and_update_unfold)


lemma gauges_fetch_and_update:
  "gauges (fetch_and_update net l url hp hsp v w) (g, l') =
     (if l' = l then unit_gauge net v (l, url, hp, hsp) w g else gauges w (g, l'))"
proof (cases "net url hp")
  case (Inl e)
  then show ?thesis by (simp add: gauges_fetch_failed unit_gauge_def)
next
  case (Inr data)
  let ?w1 = "snd (fetch_apache_status net url hp hsp w)"
  let ?f = "update_metrics l (parse_status data) v"
  have g: "gauges (fetch_and_update net l url hp hsp v w) = gauges (snd (?f ?w1))"
    using Inr by (simp add: fetch_and_update_unfold Let_def split: option.splits)
  from uniform_step_update_metrics[of l "parse_status data" v] obtain out T where
    T: "\<And>w k. gauges (snd (?f w)) k = apply_eff (T k) (gauges w k)"
    unfolding uniform_step_def by blast
  have same: "gauges (snd (?f ?w1)) (g, l) = gauges (snd (?f w)) (g, l)"
    by (simp add: T)
  show ?thesis
    using Inr by (simp add: g same unit_gauge_def update_metrics_other_label)
qed




lemma gather_other_label:
  "l \<notin> fst ` set tasks \<Longrightarrow> gauges (gather net v tasks w) (g, l) = gauges w (g, l)"
proof (induction tasks arbitrary: w)
  case Nil
  then show ?case by simp
next
  case (Cons t tasks)
  obtain l' url hp hsp where t: "t = (l', url, hp, hsp)" by (cases t) auto
  with Cons.prems have "l \<noteq> l'" "l \<notin> fst ` set tasks" by auto
  then show ?case by (simp add: t Cons.IH gauges_fetch_and_update)
qed

lemma gather_failed_label:
  "(\<forall>t \<in> set tasks. fst t = l \<longrightarrow> (\<exists>e. net (fst (snd t)) (fst (snd (snd t))) = Inl e)) \<Longrightarrow>
   gauges (gather net v tasks w) (g, l) = gauges w (g, l)"
proof (induction tasks arbitrary: w)
  case Nil
  then show ?case by simp
next
  case (Cons t tasks)
  obtain l' url hp hsp where t: "t = (l', url, hp, hsp)" by (cases t) auto
  have ih: "gauges (gather net v tasks (fetch_and_update net l' url hp hsp v w)) (g, l) =
            gauges (fetch_and_update net l' url hp hsp v w) (g, l)"
    using Cons.prems by (intro Cons.IH) simp
  show ?case
  proof (cases "l' = l")
    case True
    with Cons.prems t obtain e where "net url hp = Inl e" by auto
    then show ?thesis by (simp add: t ih gauges_fetch_failed)
  next
    case False
    then show ?thesis by (simp add: t ih gauges_fetch_and_update)
  qed
qed



lemma uniform_w_fetch_and_update: "uniform_w (fetch_and_update net l url hp hsp v)"
proof (cases "net url hp")
  case (Inl e)
  show ?thesis unfolding uniform_w_def
    using Inl by (intro exI[of _ "\<lambda>k. Keep"]) (simp add: gauges_fetch_failed)
next
  case (Inr data)
  from uniform_step_update_metrics[of l "parse_status data" v] obtain out T where
    T: "\<And>w k. gauges (snd (update_metrics l (parse_status data) v w)) k =
                apply_eff (T k) (gauges w k)"
    unfolding uniform_step_def by blast
  show ?thesis unfolding uniform_w_def
    by (rule exI[of _ T])
       (simp add: fetch_and_update_unfold Inr Let_def T split: option.splits)
qed

lemma uniform_w_comp: "uniform_w f \<Longrightarrow> uniform_w g \<Longrightarrow> uniform_w (\<lambda>w. g (f w))"
proof -
  assume "uniform_w f" "uniform_w g"
  then obtain T1 T2 where
    f: "\<And>w k. gauges (f w) k = apply_eff (T1 k) (gauges w k)" and
    g: "\<And>w k. gauges (g w) k = apply_eff (T2 k) (gauges w k)"
    unfolding uniform_w_def by blast
  show ?thesis unfolding uniform_w_def
    by (rule exI[of _ "\<lambda>k. comp_eff (T2 k) (T1 k)"]) (simp add: f g apply_comp_eff)
qed

lemma uniform_w_gather: "uniform_w (gather net v tasks)"
proof (induction tasks)
  case Nil
  show ?case unfolding uniform_w_def by (rule exI[of _ "\<lambda>k. Keep"]) simp
next
  case (Cons t tasks)
  obtain l url hp hsp where t: "t = (l, url, hp, hsp)" by (cases t) auto
  have "uniform_w (\<lambda>w. gather net v tasks (fetch_and_update net l url hp hsp v w))"
    using uniform_w_fetch_and_update Cons.IH by (rule uniform_w_comp)
  then show ?case by (simp add: t)
qed

lemma uniform_w_idem: "uniform_w f \<Longrightarrow> gauges (f (f w)) = gauges (f w)"
  unfolding uniform_w_def by (auto simp: fun_eq_iff apply_eff_idem)

lemmas float_eval = py_float_str_def num_strip_def num_isspace_def take_sign_def
  parse_decimal_def scale10_def round_range_def float_limit_def digits_val_def is_digit_def
  ascii_lower_def Let_def


lemma float_samples:
  "py_float_str ''5'' = Some (Finite 5)"
  "py_float_str ''1.5'' = Some (Finite (3 / 2))"
  "py_float_str ''abc'' = None"
  by (simp_all add: float_eval)


















lemma parse_page_bad_cpu:
  "parse_status page_bad_cpu ''Total Accesses'' = Some ''5''"
  "parse_status page_bad_cpu ''CPULoad'' = Some ''abc''"
  by (simp_all add: page_bad_cpu_def parse_status_def split_def strip_def py_isspace_def)

lemmas url_eval = ensure_auto_parameter_def urlparse_def urlsplit_def split_scheme_def
  splitnetloc_def split_first_def before_char_def after_char_def scheme_chars_def
  uses_params_def uses_netloc_def ascii_lower_def urlunparse_def urlunsplit_def parse_qs_def
  parse_qsl_def unquote_plus_def is_hexdig_def hexval_def split_def Let_def splitparams_def

lemma url_samples:
  "ensure_auto_parameter ''http://a.example/server-status?auto=1'' =
     Inr ''http://a.example/server-status?auto=1''"
  "ensure_auto_parameter ''http://b.example/server-status?auto=1'' =
     Inr ''http://b.example/server-status?auto=1''"
  "ensure_auto_parameter ''http://[::1/server-status'' = Inl ValueError"
  by (simp_all add: url_eval)

lemma make_tasks_labels:
  "make_tasks cfg gh ghs = Inr tasks \<Longrightarrow>
   map fst tasks = filter (\<lambda>l. l \<noteq> ''config'') (map fst cfg)"
proof (induction cfg arbitrary: tasks)
  case Nil
  then show ?case by simp
next
  case (Cons s cfg)
  obtain l sec where s: "s = (l, sec)" by (cases s) auto
  show ?case
  proof (cases "l = ''config''")
    case True
    with Cons s show ?thesis by simp
  next
    case False
    with Cons.prems s obtain ts where "make_tasks cfg gh ghs = Inr ts"
      and "map fst tasks = l # map fst ts"
      by (auto split: option.splits sum.splits)
    with Cons.IH[of ts] False s show ?thesis by simp
  qed
qed

lemma make_tasks_filter:
  "make_tasks cfg gh ghs = make_tasks (filter (\<lambda>s. fst s \<noteq> ''config'') cfg) gh ghs"
  by (induction cfg) (auto split: option.splits sum.splits)


lemma make_tasks_config_two: "make_tasks config_two None None = Inr tasks_two"
  by (simp add: config_two_def tasks_two_def url_samples option_get_def)

lemma one_down_samples:
  "one_down ''http://a.example/server-status?auto=1'' None = Inr ''Total Accesses: 5''"
  "one_down ''http://b.example/server-status?auto=1'' None = Inl (ClientError ''timeout'')"
  by (simp_all add: one_down_def)

lemma float_field_total_5:
  "float_field (parse_status ''Total Accesses: 5'') ''Total Accesses'' = Inr (PyFloat (Finite 5))"
  by (simp add: float_field_def dict_get_def parse_status_def split_def strip_def
      py_isspace_def float_samples)

subsection \<open>ensure_auto_parameter on ordinary URLs\<close>







lemma no_tab_newline_append [simp]:
  "no_tab_newline (a @ b) \<longleftrightarrow> no_tab_newline a \<and> no_tab_newline b"
  by (simp add: no_tab_newline_def)










section \<open>The claims\<close>

subsection \<open>C1: a failed unit of work and the gauges\<close>

text \<open>
  Claim C1, as stated, fails: the page has a numeric Total Accesses and a non-numeric
  CPULoad; the unit of work fails with ValueError, and the gauge apache_total_accesses of
  the label has gone from 1 to 5.
\<close>

theorem failed_projection_partial_update:
  "stdout (fetch_and_update (serve page_bad_cpu) ''a'' ''http://a.example/server-status''
      None None False world_total_1) = [ErrorFetching ''a'' ValueError] \<and>
   gauges world_total_1 (apache_total_accesses, ''a'') = Some (Finite 1) \<and>
   gauges (fetch_and_update (serve page_bad_cpu) ''a'' ''http://a.example/server-status''
      None None False world_total_1) (apache_total_accesses, ''a'') = Some (Finite 5)"
proof -
  let ?st = "parse_status page_bad_cpu"
  have f: "float_field ?st ''Total Accesses'' = Inr (PyFloat (Finite 5))"
    "float_field ?st ''CPULoad'' = Inl ValueError"
    by (simp_all add: float_field_def dict_get_def parse_page_bad_cpu float_samples)
  have o: "\<And>w. fst (update_metrics ''a'' ?st False w) = Some ValueError"
    by (simp add: update_metrics_outcome or_else_def arg_outcome_def f)
  have g: "\<And>w. gauges (snd (update_metrics ''a'' ?st False w)) (apache_total_accesses, ''a'') =
      Some (Finite 5)"
    using f(1) by (rule total_accesses_kept)
  show ?thesis
    by (simp add: fetch_and_update_unfold serve_def o g print_def stdout_update_metrics
        world_total_1_def empty_world_def)
qed

text \<open>
  Claim C1, amended: when the fetch of a target fails, every gauge is left exactly as it
  was, by that target's unit of work and, for its label, by the whole cycle; a unit of
  work never changes a gauge of another label; and a failure of the projection does not
  undo what it has stored: whenever Total Accesses coerces, its gauge holds the new value
  after the unit of work, whatever happens at the later fields.
\<close>

theorem failed_fetch_leaves_gauges:
  "(net url hp = Inl e \<longrightarrow> gauges (fetch_and_update net l url hp hsp v w) = gauges w) \<and>
   (make_tasks cfg gh ghs = Inr tasks \<and>
    (\<forall>t \<in> set tasks. fst t = l \<longrightarrow> (\<exists>e. net (fst (snd t)) (fst (snd (snd t))) = Inl e)) \<longrightarrow>
      collect_metrics net cfg gh ghs v w = Inr (gather net v tasks w) \<and>
      (\<forall>g. gauges (gather net v tasks w) (g, l) = gauges w (g, l))) \<and>
   (l' \<noteq> l \<longrightarrow> gauges (fetch_and_update net l url hp hsp v w) (g, l') = gauges w (g, l')) \<and>
   (net url hp = Inr data \<and>
    float_field (parse_status data) ''Total Accesses'' = Inr (PyFloat f) \<longrightarrow>
      gauges (fetch_and_update net l url hp hsp v w) (apache_total_accesses, l) = Some f)"
proof (intro conjI impI allI)
  assume "net url hp = Inl e"
  then show "gauges (fetch_and_update net l url hp hsp v w) = gauges w"
    by (rule gauges_fetch_failed)
next
  assume a: "make_tasks cfg gh ghs = Inr tasks \<and>
    (\<forall>t \<in> set tasks. fst t = l \<longrightarrow> (\<exists>e. net (fst (snd t)) (fst (snd (snd t))) = Inl e))"
  then show "collect_metrics net cfg gh ghs v w = Inr (gather net v tasks w)"
    by (simp add: collect_metrics_def)
  fix g
  from a show "gauges (gather net v tasks w) (g, l) = gauges w (g, l)"
    by (intro gather_failed_label) simp
next
  assume "l' \<noteq> l"
  then show "gauges (fetch_and_update net l url hp hsp v w) (g, l') = gauges w (g, l')"
    by (simp add: gauges_fetch_and_update)
next
  assume a: "net url hp = Inr data \<and>
    float_field (parse_status data) ''Total Accesses'' = Inr (PyFloat f)"
  then have "\<And>w. gauges (snd (update_metrics l (parse_status data) v w))
      (apache_total_accesses, l) = Some f"
    by (intro total_accesses_kept) simp
  with a show "gauges (fetch_and_update net l url hp hsp v w) (apache_total_accesses, l) = Some f"
    by (simp add: gauges_fetch_and_update unit_gauge_def)
qed

text \<open>
  Claim C1, amended, on a cycle over two targets of which the second times out, from a
  registry where apache_total_accesses of the first is 1.
\<close>

theorem failed_fetch_leaves_gauges_witness:
  "one_down ''http://b.example/server-status?auto=1'' None = Inl (ClientError ''timeout'') \<and>
   gauges (fetch_and_update one_down ''b'' ''http://b.example/server-status?auto=1'' None None
      False world_total_1) = gauges world_total_1 \<and>
   collect_metrics one_down config_two None None False world_total_1 =
     Inr (gather one_down False tasks_two world_total_1) \<and>
   gauges (gather one_down False tasks_two world_total_1) (apache_total_accesses, ''b'') =
     gauges world_total_1 (apache_total_accesses, ''b'') \<and>
   gauges (fetch_and_update one_down ''b'' ''http://b.example/server-status?auto=1'' None None
      False world_total_1) (apache_total_accesses, ''a'') = Some (Finite 1) \<and>
   gauges (fetch_and_update one_down ''a'' ''http://a.example/server-status?auto=1'' None None
      False world_total_1) (apache_total_accesses, ''a'') = Some (Finite 5)"
proof -
  let ?ua = "''http://a.example/server-status?auto=1''"
  let ?ub = "''http://b.example/server-status?auto=1''"
  have h2: "make_tasks config_two None None = Inr tasks_two \<and>
    (\<forall>t \<in> set tasks_two. fst t = ''b'' \<longrightarrow>
       (\<exists>e. one_down (fst (snd t)) (fst (snd (snd t))) = Inl e))"
    by (simp add: make_tasks_config_two tasks_two_def one_down_samples)
  have h3: "''a'' \<noteq> ''b''" by simp
  have h4: "one_down ?ua None = Inr ''Total Accesses: 5'' \<and>
    float_field (parse_status ''Total Accesses: 5'') ''Total Accesses'' = Inr (PyFloat (Finite 5))"
    by (simp add: one_down_samples float_field_total_5)
  note t1 = failed_fetch_leaves_gauges[of one_down ?ub None "ClientError ''timeout''" "''b''" None False
      world_total_1 config_two None None tasks_two "''a''" apache_total_accesses]
  note t2 = failed_fetch_leaves_gauges[of one_down ?ua None _ "''a''" None False world_total_1 _ _ _ _ _ _
      "''Total Accesses: 5''" "Finite 5"]
  from t1 one_down_samples(2) have c1: "gauges (fetch_and_update one_down ''b'' ?ub None None
      False world_total_1) = gauges world_total_1" by blast
  from t1 h2 have c2: "collect_metrics one_down config_two None None False world_total_1 =
     Inr (gather one_down False tasks_two world_total_1)"
    and c2': "\<forall>g. gauges (gather one_down False tasks_two world_total_1) (g, ''b'') =
       gauges world_total_1 (g, ''b'')" by blast+
  from t1 h3 have c3: "gauges (fetch_and_update one_down ''b'' ?ub None None
      False world_total_1) (apache_total_accesses, ''a'') =
      gauges world_total_1 (apache_total_accesses, ''a'')" by blast
  from t2 h4 have c4: "gauges (fetch_and_update one_down ''a'' ?ua None None
      False world_total_1) (apache_total_accesses, ''a'') = Some (Finite 5)" by blast
  have w: "gauges world_total_1 (apache_total_accesses, ''a'') = Some (Finite 1)"
    by (simp add: world_total_1_def)
  from c1 c2 c2' c3 c4 w one_down_samples(2) show ?thesis by simp
qed

subsection \<open>C2: absent and non-numeric fields\<close>




subsection \<open>C3: one unit of work per target, failures kept apart\<close>




subsection \<open>C4: lines with a separator\<close>

text \<open>
  Claim C4, as stated, fails: a line with a second colon, space has a separator, and the
  parser makes no entry for it.
\<close>

theorem parse_line_second_separator_skipped:
  "0 < count_sep ''a: b: c'' \<and> dom (parse_status ''a: b: c'') = {}"
  by (simp add: parse_status_def split_def)

text \<open>
  Claim C4, amended: a line with exactly one colon, space is split there into key and
  value and yields the entry of the trimmed key and the trimmed value, also as a line of a
  whole page; a line with none or with more than one does not split into two parts and is
  skipped.
\<close>

theorem parse_line_exactly_one_separator:
  "(count_sep item = 1 \<longrightarrow>
      split '': '' item = [before_sep item, after_sep item] \<and>
      parse_items (item # items) st =
        parse_items items (st(strip (before_sep item) \<mapsto> strip (after_sep item)))) \<and>
   (count_sep item \<noteq> 1 \<longrightarrow>
      length (split '': '' item) \<noteq> 2 \<and>
      parse_items (item # items) st = parse_items items st) \<and>
   (item \<in> set (split [NL] data) \<and> count_sep item = 1 \<longrightarrow>
      strip (before_sep item) \<in> dom (parse_status data))"
proof (intro conjI impI)
  assume "item \<in> set (split [NL] data) \<and> count_sep item = 1"
  then have "item \<in> set (kept_lines data)" by (simp add: kept_lines_def split_NL)
  then have "fst (entry_of item) \<in> fst ` set (rev (map entry_of (kept_lines data)))"
    by force
  then show "strip (before_sep item) \<in> dom (parse_status data)"
    by (simp only: parse_status_map_of dom_map_of_conv_image_fst) (simp add: entry_of_def)
next
  assume one: "count_sep item = 1"
  show "split '': '' item = [before_sep item, after_sep item]"
    using one by (rule split_one)
  show "parse_items (item # items) st =
        parse_items items (st(strip (before_sep item) \<mapsto> strip (after_sep item)))"
    using one by (rule parse_item_kept)
next
  assume other: "count_sep item \<noteq> 1"
  show "length (split '': '' item) \<noteq> 2"
    using other by (rule split_not_one)
  show "parse_items (item # items) st = parse_items items st"
    using other by (rule parse_item_skipped)
qed

text \<open>
  Claim C4, amended, on the lines \<open>a: b\<close> and \<open>a: b: c\<close>.
\<close>

theorem parse_line_exactly_one_separator_witness:
  "count_sep ''a: b'' = 1 \<and> split '': '' ''a: b'' = [''a'', ''b''] \<and>
   parse_status ''a: b'' ''a'' = Some ''b'' \<and>
   count_sep ''a: b: c'' \<noteq> 1 \<and> length (split '': '' ''a: b: c'') \<noteq> 2 \<and>
   parse_items [''a: b: c''] Map.empty = Map.empty \<and>
   ''a'' \<in> dom (parse_status ''a: b'')"
proof -
  have 1: "count_sep ''a: b'' = 1" by simp
  have 2: "count_sep ''a: b: c'' \<noteq> 1" by simp
  have 3: "''a: b'' \<in> set (split [NL] ''a: b'') \<and> count_sep ''a: b'' = 1"
    by (simp add: split_def)
  have s: "strip ''a'' = ''a''" "strip ''b'' = ''b''" by (simp_all add: strip_def py_isspace_def)
  from parse_line_exactly_one_separator[of "''a: b''" "[]" Map.empty "''a: b''"] 1 3
  have a: "split '': '' ''a: b'' = [''a'', ''b'']"
    and b: "parse_items [''a: b''] Map.empty = [strip ''a'' \<mapsto> strip ''b'']"
    and c: "strip ''a'' \<in> dom (parse_status ''a: b'')"
    by simp_all
  from parse_line_exactly_one_separator[of "''a: b: c''" "[]" Map.empty "[]"] 2
  have d: "length (split '': '' ''a: b: c'') \<noteq> 2"
    and e: "parse_items [''a: b: c''] Map.empty = Map.empty"
    by simp_all
  show ?thesis using 1 2 a b c d e s by (simp add: parse_status_def split_def)
qed

subsection \<open>C5: size, trimming and duplicate keys\<close>

text \<open>
  Claim C5: when the lines with exactly one separator have pairwise distinct trimmed keys,
  the mapping has as many entries as there are such lines; every key and value of the
  mapping is trimmed; and of the lines with one separator that share a trimmed key, the
  last one gives the value.
\<close>

theorem parse_status_size_trimmed_last_wins:
  "(distinct (map (fst \<circ> entry_of) (kept_lines data)) \<longrightarrow>
      card (dom (parse_status data)) = length (kept_lines data)) \<and>
   (\<forall>k v. parse_status data k = Some v \<longrightarrow> trimmed k \<and> trimmed v) \<and>
   (\<forall>pre item post.
      kept_lines data = pre @ item # post \<and>
      fst (entry_of item) \<notin> set (map (fst \<circ> entry_of) post) \<longrightarrow>
      parse_status data (fst (entry_of item)) = Some (snd (entry_of item)))"
proof (intro conjI allI impI)
  assume d: "distinct (map (fst \<circ> entry_of) (kept_lines data))"
  have "dom (parse_status data) = set (map (fst \<circ> entry_of) (kept_lines data))"
    by (simp only: parse_status_map_of dom_map_of_conv_image_fst) (simp add: image_image)
  then show "card (dom (parse_status data)) = length (kept_lines data)"
    using distinct_card[OF d] by simp
next
  fix k v assume "parse_status data k = Some v"
  then have "(k, v) \<in> set (rev (map entry_of (kept_lines data)))"
    unfolding parse_status_map_of by (rule map_of_SomeD)
  then obtain item where "(k, v) = entry_of item" by auto
  then have kv: "k = strip (before_sep item)" "v = strip (after_sep item)"
    by (simp_all add: entry_of_def)
  show "trimmed k" unfolding kv by (rule trimmed_strip)
  show "trimmed v" unfolding kv by (rule trimmed_strip)
next
  fix pre item post
  assume a: "kept_lines data = pre @ item # post \<and>
      fst (entry_of item) \<notin> set (map (fst \<circ> entry_of) post)"
  then have n: "map_of (rev (map entry_of post)) (fst (entry_of item)) = None"
    by (simp add: map_of_eq_None_iff image_image)
  have "parse_status data =
        map_of (rev (map entry_of post) @ entry_of item # rev (map entry_of pre))"
    using a by (simp add: parse_status_map_of)
  then show "parse_status data (fst (entry_of item)) = Some (snd (entry_of item))"
    using n by (cases "entry_of item") (simp add: map_of_append map_add_def)
qed

text \<open>
  Claim C5 on a page of two lines with the keys \<open>a\<close> and \<open>b\<close>, and on the page
  \<open>BusyWorkers: 3\<close>, \<open>BusyWorkers: 7\<close>.
\<close>

theorem parse_status_size_trimmed_last_wins_witness:
  "distinct (map (fst \<circ> entry_of) (kept_lines (''a: 1'' @ [NL] @ ''b: 2''))) \<and>
   card (dom (parse_status (''a: 1'' @ [NL] @ ''b: 2''))) = 2 \<and>
   parse_status (''a: 1'' @ [NL] @ ''b: 2'') ''a'' = Some ''1'' \<and> trimmed ''a'' \<and> trimmed ''1'' \<and>
   kept_lines (''BusyWorkers: 3'' @ [NL] @ ''BusyWorkers: 7'') =
     [''BusyWorkers: 3''] @ ''BusyWorkers: 7'' # [] \<and>
   parse_status (''BusyWorkers: 3'' @ [NL] @ ''BusyWorkers: 7'') ''BusyWorkers'' = Some ''7''"
proof -
  let ?d1 = "''a: 1'' @ [NL] @ ''b: 2''"
  let ?d2 = "''BusyWorkers: 3'' @ [NL] @ ''BusyWorkers: 7''"
  have k1: "kept_lines ?d1 = [''a: 1'', ''b: 2'']" by (simp add: kept_lines_def)
  have k2: "kept_lines ?d2 = [''BusyWorkers: 3''] @ ''BusyWorkers: 7'' # []"
    by (simp add: kept_lines_def)
  have e: "entry_of ''a: 1'' = (''a'', ''1'')" "entry_of ''b: 2'' = (''b'', ''2'')"
    "entry_of ''BusyWorkers: 7'' = (''BusyWorkers'', ''7'')"
    by (simp_all add: entry_of_def)
  have d: "distinct (map (fst \<circ> entry_of) (kept_lines ?d1))" using k1 by (simp add: e)
  have p: "parse_status ?d1 ''a'' = Some ''1''"
    using k1 by (simp add: parse_status_map_of e)
  note t1 = parse_status_size_trimmed_last_wins[of ?d1]
    and t2 = parse_status_size_trimmed_last_wins[of ?d2]
  from t1 d have c: "card (dom (parse_status ?d1)) = 2" using k1 by simp
  from t1 have "parse_status ?d1 ''a'' = Some ''1'' \<longrightarrow> trimmed ''a'' \<and> trimmed ''1''"
    by (elim conjE allE)
  then have tr: "trimmed ''a'' \<and> trimmed ''1''" using p by (rule mp)
  from t2 have "kept_lines ?d2 = [''BusyWorkers: 3''] @ ''BusyWorkers: 7'' # [] \<and>
      fst (entry_of ''BusyWorkers: 7'') \<notin> set (map (fst \<circ> entry_of) []) \<longrightarrow>
      parse_status ?d2 (fst (entry_of ''BusyWorkers: 7'')) =
      Some (snd (entry_of ''BusyWorkers: 7''))"
    by (elim conjE allE)
  with k2 have l: "parse_status ?d2 (fst (entry_of ''BusyWorkers: 7'')) =
      Some (snd (entry_of ''BusyWorkers: 7''))"
    by simp
  show ?thesis using d c p tr k2 l by (simp add: e)
qed

subsection \<open>C6: ensure_auto_parameter\<close>




subsection \<open>C7: the worker ratio\<close>



subsection \<open>C8: the proxy of a request\<close>

text \<open>
  Claim C8 at the failing input: for an https URL with only an https proxy configured,
  the request is issued with no proxy, although the https proxy was put in
  \<open>os.environ\<close>.
\<close>

theorem https_proxy_not_passed_to_request:
  "requests (snd (fetch_apache_status net ''https://a.example/server-status?auto'' None
      (Some ''http://proxy.example:3128'') empty_world)) =
     [(''https://a.example/server-status?auto'', None)] \<and>
   environ (snd (fetch_apache_status net ''https://a.example/server-status?auto'' None
      (Some ''http://proxy.example:3128'') empty_world)) ''https_proxy'' =
     Some ''http://proxy.example:3128''"
  by (cases "net ''https://a.example/server-status?auto'' None")
     (simp_all add: fetch_apache_status_def empty_world_def)

subsection \<open>C9: idempotence\<close>

text \<open>
  Claim C9: running the projection a second time with the same label and mapping gives
  the same outcome and leaves every gauge as the first run left it; the same holds for one
  target's fetch and update and for all the tasks of a cycle, when the network answers the
  same.
\<close>

theorem projection_idempotent:
  "fst (update_metrics l st v (snd (update_metrics l st v w))) = fst (update_metrics l st v w) \<and>
   gauges (snd (update_metrics l st v (snd (update_metrics l st v w)))) =
     gauges (snd (update_metrics l st v w)) \<and>
   gauges (fetch_and_update net l url hp hsp v (fetch_and_update net l url hp hsp v w)) =
     gauges (fetch_and_update net l url hp hsp v w) \<and>
   gauges (gather net v tasks (gather net v tasks w)) = gauges (gather net v tasks w)"
  using uniform_step_idem[OF uniform_step_update_metrics, of l st v w]
    uniform_w_idem[OF uniform_w_fetch_and_update, of net l url hp hsp v w]
    uniform_w_idem[OF uniform_w_gather, of net v tasks w]
  by simp

subsection \<open>C10: the section named config\<close>

text \<open>
  Claim C10: the cycle is the same as the cycle of the configuration without its
  \<open>config\<close> sections, whatever they contain; no task has the label \<open>config\<close>; and
  after the cycle every gauge with the label \<open>config\<close> is as it was.
\<close>

theorem config_section_is_no_target:
  "collect_metrics net cfg gh ghs v w =
     collect_metrics net (filter (\<lambda>s. fst s \<noteq> ''config'') cfg) gh ghs v w \<and>
   (\<forall>tasks. make_tasks cfg gh ghs = Inr tasks \<longrightarrow> ''config'' \<notin> fst ` set tasks) \<and>
   (\<forall>w'. collect_metrics net cfg gh ghs v w = Inr w' \<longrightarrow>
      (\<forall>g. gauges w' (g, ''config'') = gauges w (g, ''config'')))"
proof (intro conjI allI impI)
  show "collect_metrics net cfg gh ghs v w =
     collect_metrics net (filter (\<lambda>s. fst s \<noteq> ''config'') cfg) gh ghs v w"
    using make_tasks_filter[of cfg gh ghs] by (simp add: collect_metrics_def)
next
  fix tasks assume "make_tasks cfg gh ghs = Inr tasks"
  then have "map fst tasks = filter (\<lambda>l. l \<noteq> ''config'') (map fst cfg)"
    by (rule make_tasks_labels)
  then have "set (map fst tasks) = {l \<in> set (map fst cfg). l \<noteq> ''config''}"
    by (simp only: set_filter)
  then show "''config'' \<notin> fst ` set tasks" by auto
next
  fix w' g assume c: "collect_metrics net cfg gh ghs v w = Inr w'"
  then obtain tasks where m: "make_tasks cfg gh ghs = Inr tasks"
    and w': "w' = gather net v tasks w"
    by (auto simp: collect_metrics_def split: sum.splits)
  from m have "map fst tasks = filter (\<lambda>l. l \<noteq> ''config'') (map fst cfg)"
    by (rule make_tasks_labels)
  then have "set (map fst tasks) = {l \<in> set (map fst cfg). l \<noteq> ''config''}"
    by (simp only: set_filter)
  then have "''config'' \<notin> fst ` set tasks" by auto
  then show "gauges w' (g, ''config'') = gauges w (g, ''config'')"
    unfolding w' by (rule gather_other_label)
qed

text \<open>
  Claim C10 on a configuration whose \<open>config\<close> section has a \<open>url\<close>.
\<close>

theorem config_section_is_no_target_witness:
  "make_tasks config_two None None = Inr tasks_two \<and>
   ''config'' \<in> fst ` set config_two \<and>
   ''config'' \<notin> fst ` set tasks_two \<and>
   collect_metrics one_down config_two None None False world_total_1 =
     Inr (gather one_down False tasks_two world_total_1) \<and>
   gauges (gather one_down False tasks_two world_total_1) (apache_total_accesses, ''config'') =
     gauges world_total_1 (apache_total_accesses, ''config'')"
proof -
  have c: "collect_metrics one_down config_two None None False world_total_1 =
     Inr (gather one_down False tasks_two world_total_1)"
    by (simp add: collect_metrics_def make_tasks_config_two)
  have i: "''config'' \<in> fst ` set config_two" by (simp add: config_two_def)
  note t = config_section_is_no_target[of one_down config_two None None False world_total_1]
  from t make_tasks_config_two have a: "''config'' \<notin> fst ` set tasks_two" by blast
  from t c have b: "\<forall>g. gauges (gather one_down False tasks_two world_total_1) (g, ''config'') =
     gauges world_total_1 (g, ''config'')" by blast
  from make_tasks_config_two i a c b show ?thesis by blast
qed

end
